theory Spec2Isabelle
  imports Complex_Main "HOL-Library.Log_Nat"
begin

section \<open>Rigid transforms\<close>

text \<open>
  The module \<open>positronic.geom\<close> is used by \<open>data_collection.py\<close> but its source is not
  part of the files at hand. In this section and the next the scalars are real numbers: the
  arithmetic is exact. The same transforms and the same tracker over binary64 numbers, where
  every sum and product is rounded, follow after them.
\<close>

type_synonym vec3 = "real \<times> real \<times> real"

text \<open>
  Modelled from the spec: the class \<open>geom.Rotation\<close> is missing. The spec gives the rotation of
  a pose as a unit quaternion with composition and inversion; \<open>Quat w x y z\<close> is the quaternion
  with scalar part \<open>w\<close>.
\<close>

datatype Rotation = Quat real real real real

fun vadd :: "vec3 \<Rightarrow> vec3 \<Rightarrow> vec3" where
  "vadd (a1, a2, a3) (b1, b2, b3) = (a1 + b1, a2 + b2, a3 + b3)"

fun vneg :: "vec3 \<Rightarrow> vec3" where
  "vneg (a1, a2, a3) = (- a1, - a2, - a3)"

text \<open>Modelled from the spec: \<open>Rotation.__mul__\<close> is missing; composition of rotations is the
  Hamilton product.\<close>

fun rmul :: "Rotation \<Rightarrow> Rotation \<Rightarrow> Rotation" where
  "rmul (Quat w1 x1 y1 z1) (Quat w2 x2 y2 z2) =
     Quat (w1 * w2 - x1 * x2 - y1 * y2 - z1 * z2)
          (w1 * x2 + x1 * w2 + y1 * z2 - z1 * y2)
          (w1 * y2 - x1 * z2 + y1 * w2 + z1 * x2)
          (w1 * z2 + x1 * y2 - y1 * x2 + z1 * w2)"

text \<open>Modelled from the spec: \<open>Rotation.inv\<close> is missing; the inverse of a unit quaternion is
  its conjugate.\<close>

fun rinv :: "Rotation \<Rightarrow> Rotation" where
  "rinv (Quat w x y z) = Quat w (- x) (- y) (- z)"

text \<open>Modelled from the spec: applying a rotation to a vector (\<open>Rotation.__call__\<close>, missing) is
  conjugation of the pure quaternion of the vector.\<close>

fun rapply :: "Rotation \<Rightarrow> vec3 \<Rightarrow> vec3" where
  "rapply q (v1, v2, v3) =
     (case rmul (rmul q (Quat 0 v1 v2 v3)) (rinv q) of Quat w x y z \<Rightarrow> (x, y, z))"


record Transform3D =
  translation :: vec3
  rotation :: Rotation

text \<open>\<open>geom.Transform3D()\<close> without arguments: the identity transform.\<close>

definition Transform3D_default :: Transform3D where
  "Transform3D_default = \<lparr>translation = (0, 0, 0), rotation = Quat 1 0 0 0\<rparr>"

text \<open>Modelled from the spec: \<open>Transform3D.__mul__\<close> is missing; \<open>tmul a b\<close> applies the frame
  of \<open>a\<close> to \<open>b\<close>.\<close>

definition tmul :: "Transform3D \<Rightarrow> Transform3D \<Rightarrow> Transform3D" where
  "tmul a b =
     \<lparr>translation = vadd (rapply (rotation a) (translation b)) (translation a),
      rotation = rmul (rotation a) (rotation b)\<rparr>"

text \<open>Modelled from the spec: \<open>Transform3D.inv\<close> is missing.\<close>

definition tinv :: "Transform3D \<Rightarrow> Transform3D" where
  "tinv a =
     \<lparr>translation = vneg (rapply (rinv (rotation a)) (translation a)),
      rotation = rinv (rotation a)\<rparr>"

text \<open>\<open>OperatorPosition.FRONT\<close>: the quaternion with all four components one half.\<close>

definition FRONT :: Transform3D where
  "FRONT = \<lparr>translation = (0, 0, 0), rotation = Quat (1/2) (1/2) (1/2) (1/2)\<rparr>"

section \<open>The tracker\<close>

text \<open>
  The class \<open>_Tracker\<close>. The class-level defaults \<open>on\<close>, \<open>_offset\<close> and \<open>_teleop_t\<close> are read
  through the instance until the instance assigns its own; no method changes a transform in
  place, so an instance behaves as if it had the three fields from its construction.
  \<open>operator_position = None\<close> is the UMI (passthrough) mode.
\<close>

record Tracker =
  on :: bool
  offset :: Transform3D
  teleop_t :: Transform3D
  operator_position :: "Transform3D option"

definition umi_mode :: "Tracker \<Rightarrow> bool" where
  "umi_mode t = (operator_position t = None)"

definition Tracker_init :: "Transform3D option \<Rightarrow> Tracker" where
  "Tracker_init opos =
     \<lparr>on = (opos = None), offset = Transform3D_default, teleop_t = Transform3D_default,
      operator_position = opos\<rparr>"

definition turn_on :: "Transform3D \<Rightarrow> Tracker \<Rightarrow> Tracker" where
  "turn_on robot_pos t =
     (if umi_mode t then t
      else t\<lparr>on := True,
             offset := \<lparr>translation = vadd (vneg (translation (teleop_t t))) (translation robot_pos),
                        rotation = rmul (rinv (rotation (teleop_t t))) (rotation robot_pos)\<rparr>\<rparr>)"

definition turn_off :: "Tracker \<Rightarrow> Tracker" where
  "turn_off t = (if umi_mode t then t else t\<lparr>on := False\<rparr>)"

text \<open>\<open>update\<close> returns the target pose together with the tracker after the call.\<close>

definition update :: "Transform3D \<Rightarrow> Tracker \<Rightarrow> Transform3D \<times> Tracker" where
  "update tracker_pos t =
     (case operator_position t of
        None \<Rightarrow> (tracker_pos, t)
      | Some opos \<Rightarrow>
          (let m = tmul (tmul opos tracker_pos) (tinv opos)
           in (\<lparr>translation = vadd (translation m) (translation (offset t)),
                rotation = rmul (rotation m) (rotation (offset t))\<rparr>,
               t\<lparr>teleop_t := m\<rparr>)))"

text \<open>A sequence of calls on one tracker.\<close>

datatype tracker_call = Call_turn_on Transform3D | Call_turn_off | Call_update Transform3D

fun call :: "tracker_call \<Rightarrow> Tracker \<Rightarrow> Tracker" where
  "call (Call_turn_on p) t = turn_on p t"
| "call Call_turn_off t = turn_off t"
| "call (Call_update p) t = snd (update p t)"

fun calls :: "tracker_call list \<Rightarrow> Tracker \<Rightarrow> Tracker" where
  "calls [] t = t"
| "calls (c # cs) t = calls cs (call c t)"

section \<open>Binary64 arithmetic\<close>















section \<open>Transforms and the tracker in binary64\<close>





















section \<open>Buttons\<close>

datatype exc = NoValueException | IndexError | KeyError | ValueError | AttributeError | TypeError

text \<open>
  Modelled from the spec: the class \<open>ButtonHandler\<close> (\<open>positronic.utils.buttons\<close>) is missing.
  The spec describes it as an edge detector that keeps the last-seen frame: \<open>just_pressed\<close> holds
  on the tick where the value of a button goes from false to true, and \<open>get_value\<close> reads the
  current value of a continuous control. A value counts as true when it is not zero, and a
  button that was never reported has the value zero.
\<close>

record ButtonHandler =
  button_states :: "string \<Rightarrow> real"
  previous_states :: "string \<Rightarrow> real"

definition ButtonHandler_init :: ButtonHandler where
  "ButtonHandler_init = \<lparr>button_states = (\<lambda>_. 0), previous_states = (\<lambda>_. 0)\<rparr>"

fun update_buttons :: "(string \<times> real) list \<Rightarrow> ButtonHandler \<Rightarrow> ButtonHandler" where
  "update_buttons [] h = h"
| "update_buttons ((name, v) # mapping) h =
     update_buttons mapping
       (h\<lparr>previous_states := (previous_states h)(name := button_states h name),
          button_states := (button_states h)(name := v)\<rparr>)"

definition just_pressed :: "ButtonHandler \<Rightarrow> string \<Rightarrow> bool" where
  "just_pressed h name = (button_states h name \<noteq> 0 \<and> previous_states h name = 0)"

definition get_value :: "ButtonHandler \<Rightarrow> string \<Rightarrow> real" where
  "get_value h name = button_states h name"

text \<open>
  A button frame is the dictionary with the keys \<open>left\<close> and \<open>right\<close>; the value \<open>None\<close> of a
  side says that this controller is absent. The dictionary display of \<open>_parse_buttons\<close> reads
  the indices 4, 5, 0, 1 and 3 of the side's array, which raises \<open>IndexError\<close> on an array of
  fewer than six entries.
\<close>

type_synonym button_frame = "string \<Rightarrow> real list option"

definition side_mapping :: "string \<Rightarrow> real list \<Rightarrow> exc + (string \<times> real) list" where
  "side_mapping side b =
     (if length b < 6 then Inl IndexError
      else Inr [(side @ ''_A'', b ! 4), (side @ ''_B'', b ! 5), (side @ ''_trigger'', b ! 0),
                (side @ ''_thumb'', b ! 1), (side @ ''_stick'', b ! 3)])"

fun parse_sides :: "string list \<Rightarrow> button_frame \<Rightarrow> ButtonHandler \<Rightarrow> ButtonHandler \<times> exc option" where
  "parse_sides [] buttons h = (h, None)"
| "parse_sides (side # sides) buttons h =
     (case buttons side of
        None \<Rightarrow> parse_sides sides buttons h
      | Some b \<Rightarrow>
          (case side_mapping side b of
             Inl e \<Rightarrow> (h, Some e)
           | Inr mapping \<Rightarrow> parse_sides sides buttons (update_buttons mapping h)))"

definition parse_buttons :: "button_frame \<Rightarrow> ButtonHandler \<Rightarrow> ButtonHandler \<times> exc option" where
  "parse_buttons buttons h = parse_sides [''left'', ''right''] buttons h"

section \<open>The control loop\<close>

type_synonym metadata = "(string \<times> string) list"

datatype DsWriterCommandType = START_EPISODE | STOP_EPISODE | ABORT_EPISODE

datatype DsWriterCommand = DsWriterCommand DsWriterCommandType metadata

text \<open>Modelled from the spec: \<open>DsWriterCommand.ABORT()\<close> is missing; it builds the recorder's
  abort command, which carries no metadata.\<close>

definition ABORT :: DsWriterCommand where
  "ABORT = DsWriterCommand ABORT_EPISODE []"

text \<open>The commands to the robot arm. The target of \<open>CartesianPosition\<close> is whatever \<open>update\<close>
  returned, which is \<open>None\<close> when \<open>update\<close> was given \<open>None\<close> in UMI mode.\<close>

datatype roboarm_command = Reset | CartesianPosition "Transform3D option"

text \<open>What the controller emits, one constructor for each of its four emitters.\<close>

datatype emission =
    emit_robot_commands roboarm_command
  | emit_target_grip real
  | emit_ds_agent_commands DsWriterCommand
  | emit_sound string

definition start_wav_path :: string where
  "start_wav_path = ''positronic/assets/sounds/recording-has-started.wav''"

definition end_wav_path :: string where
  "end_wav_path = ''positronic/assets/sounds/recording-has-stopped.wav''"

definition abort_wav_path :: string where
  "abort_wav_path = ''positronic/assets/sounds/recording-has-been-aborted.wav''"

record roboarm_State =
  ee_pose :: Transform3D

text \<open>
  Modelled from the spec: the package \<open>pimm\<close> is missing. The spec gives every read between
  components one of two outcomes, a new value with its payload or no new value since the last
  read, and never a wait. \<open>Message\<close> is what \<open>controller_positions.read()\<close> returns: the
  dictionary with an entry for each controller, which is the pose of the controller or \<open>None\<close>
  while the controller is not tracked, and whether the dictionary is new since the last read.
\<close>

record Message =
  data :: "string \<Rightarrow> Transform3D option"
  updated :: bool

text \<open>
  Modelled from the spec: the receivers of \<open>pimm\<close> are missing. The record says what the ports
  of the controller hold during one pass of the loop: the value of the stop signal, the latest
  button frame and the latest robot state (\<open>None\<close> when the receiver has no value yet, where
  reading \<open>.value\<close> raises \<open>NoValueException\<close>, the exception that \<open>run\<close> catches), the message
  a read of the controller positions returns, and the metadata provider as it answers during
  this pass. The suspension between two passes (\<open>yield pimm.Sleep\<close>) takes time only and is
  left out.
\<close>

record tick_env =
  should_stop :: bool
  buttons_receiver :: "button_frame option"
  robot_state :: "roboarm_State option"
  controller_positions :: Message
  metadata_getter :: "unit \<Rightarrow> metadata"

text \<open>The local variables of \<open>run\<close>.\<close>

record loop_state =
  tracker :: Tracker
  button_handler :: ButtonHandler
  recording :: bool

text \<open>
  Every step returns the state, the emissions in their order and the exception raised, if any.
  \<open>handle_edges\<close> is the \<open>if\<close>/\<open>elif\<close> chain on the three buttons, read on the button handler
  that \<open>_parse_buttons\<close> has just updated.
\<close>

definition handle_edges :: "tick_env \<Rightarrow> loop_state \<Rightarrow> loop_state \<times> emission list \<times> exc option" where
  "handle_edges env s =
     (if just_pressed (button_handler s) ''right_B'' then
        (let op = (if \<not> recording s then START_EPISODE else STOP_EPISODE);
             meta = (if op = START_EPISODE then metadata_getter env () else [])
         in (s\<lparr>recording := \<not> recording s\<rparr>,
             [emit_ds_agent_commands (DsWriterCommand op meta),
              emit_sound (if \<not> recording s then start_wav_path else end_wav_path)],
             None))
      else if just_pressed (button_handler s) ''right_A'' then
        (if on (tracker s) then (s\<lparr>tracker := turn_off (tracker s)\<rparr>, [], None)
         else
           (case robot_state env of
              None \<Rightarrow> (s, [], Some NoValueException)
            | Some st \<Rightarrow> (s\<lparr>tracker := turn_on (ee_pose st) (tracker s)\<rparr>, [], None)))
      else if just_pressed (button_handler s) ''right_stick'' \<and> \<not> umi_mode (tracker s) then
        (s\<lparr>tracker := turn_off (tracker s), recording := False\<rparr>,
         (if recording s then [emit_ds_agent_commands ABORT, emit_sound abort_wav_path] else [])
           @ [emit_robot_commands Reset],
         None)
      else (s, [], None))"

text \<open>
  The read of the controller positions and what follows it. When the entry of the right
  controller is \<open>None\<close>, \<open>update\<close> is called with \<open>None\<close>: in UMI mode it returns \<open>None\<close>, which
  is sent as the target if the tracker is on. Modelled from the spec: with a calibration,
  \<open>update\<close> composes the calibration with \<open>None\<close>; the composition of \<open>geom\<close> is missing, and the
  spec defines it on two poses only, so the call raises before the tracker is changed. The
  exception is not \<open>NoValueException\<close>, so it ends the loop.
\<close>

definition handle_pose :: "tick_env \<Rightarrow> loop_state \<Rightarrow> loop_state \<times> emission list \<times> exc option" where
  "handle_pose env s =
     (if updated (controller_positions env) then
        (case data (controller_positions env) ''right'' of
           None \<Rightarrow>
             (if umi_mode (tracker s) then
                (s, (if on (tracker s) then [emit_robot_commands (CartesianPosition None)] else []),
                 None)
              else (s, [], Some TypeError))
         | Some p \<Rightarrow>
             (case update p (tracker s) of
                (target_robot_pos, t) \<Rightarrow>
                  (s\<lparr>tracker := t\<rparr>,
                   (if on t then [emit_robot_commands (CartesianPosition (Some target_robot_pos))]
                    else []),
                   None)))
      else (s, [], None))"

text \<open>One pass through the body of the \<open>while\<close> loop.\<close>

definition tick :: "tick_env \<Rightarrow> loop_state \<Rightarrow> loop_state \<times> emission list \<times> exc option" where
  "tick env s =
     (case buttons_receiver env of
        None \<Rightarrow> (s, [], Some NoValueException)
      | Some buttons \<Rightarrow>
          (case parse_buttons buttons (button_handler s) of
             (bh, Some e) \<Rightarrow> (s\<lparr>button_handler := bh\<rparr>, [], Some e)
           | (bh, None) \<Rightarrow>
               (case handle_edges env (s\<lparr>button_handler := bh\<rparr>) of
                  (s1, out1, Some e) \<Rightarrow> (s1, out1, Some e)
                | (s1, out1, None) \<Rightarrow>
                    (case handle_pose env s1 of
                       (s2, out2, e) \<Rightarrow>
                         (s2, out1 @ [emit_target_grip (get_value bh ''right_trigger'')] @ out2, e)))))"

text \<open>
  The loop over the passes the environment offers. \<open>NoValueException\<close> is caught and the loop
  goes on with the next pass; any other exception ends the loop. The loop also ends when the
  stop signal is set.
\<close>

fun run_loop :: "tick_env list \<Rightarrow> loop_state \<Rightarrow> loop_state \<times> emission list \<times> exc option" where
  "run_loop [] s = (s, [], None)"
| "run_loop (env # envs) s =
     (if should_stop env then (s, [], None)
      else
        (case tick env s of
           (s1, out1, e) \<Rightarrow>
             (if e = None \<or> e = Some NoValueException then
                (case run_loop envs s1 of (s2, out2, e2) \<Rightarrow> (s2, out1 @ out2, e2))
              else (s1, out1, e))))"

text \<open>The state in which \<open>run\<close> enters the loop.\<close>

definition initial_state :: "Transform3D option \<Rightarrow> loop_state" where
  "initial_state opos =
     \<lparr>tracker = Tracker_init opos, button_handler = ButtonHandler_init, recording = False\<rparr>"

definition run :: "Transform3D option \<Rightarrow> tick_env list \<Rightarrow> loop_state \<times> emission list \<times> exc option" where
  "run opos envs = run_loop envs (initial_state opos)"

text \<open>What each emitter has sent, in its order, read off the emissions.\<close>

fun ds_agent_commands :: "emission list \<Rightarrow> DsWriterCommand list" where
  "ds_agent_commands [] = []"
| "ds_agent_commands (emit_ds_agent_commands c # out) = c # ds_agent_commands out"
| "ds_agent_commands (_ # out) = ds_agent_commands out"

fun sound :: "emission list \<Rightarrow> string list" where
  "sound [] = []"
| "sound (emit_sound w # out) = w # sound out"
| "sound (_ # out) = sound out"

fun target_grip :: "emission list \<Rightarrow> real list" where
  "target_grip [] = []"
| "target_grip (emit_target_grip v # out) = v # target_grip out"
| "target_grip (_ # out) = target_grip out"

fun robot_commands :: "emission list \<Rightarrow> roboarm_command list" where
  "robot_commands [] = []"
| "robot_commands (emit_robot_commands c # out) = c # robot_commands out"
| "robot_commands (_ # out) = robot_commands out"

fun command_type :: "DsWriterCommand \<Rightarrow> DsWriterCommandType" where
  "command_type (DsWriterCommand op meta) = op"

text \<open>
  The life of episodes as the recorder sees it. \<open>episodes r cs\<close> reads the commands \<open>cs\<close> with
  \<open>r\<close> telling whether an episode is open: a start needs no open episode and opens one; a stop
  and an abort each need an open episode and close it.
\<close>

fun episodes :: "bool \<Rightarrow> DsWriterCommandType list \<Rightarrow> bool" where
  "episodes r [] = True"
| "episodes r (START_EPISODE # cs) = (\<not> r \<and> episodes True cs)"
| "episodes r (STOP_EPISODE # cs) = (r \<and> episodes False cs)"
| "episodes r (ABORT_EPISODE # cs) = (r \<and> episodes False cs)"

text \<open>Whether somewhere a stop is the next command after an abort.\<close>

fun stop_after_abort :: "DsWriterCommandType list \<Rightarrow> bool" where
  "stop_after_abort [] = False"
| "stop_after_abort (c # cs) =
     ((c = ABORT_EPISODE \<and> (case cs of [] \<Rightarrow> False | d # ds \<Rightarrow> d = STOP_EPISODE))
      \<or> stop_after_abort cs)"

section \<open>Wiring\<close>

text \<open>
  The function \<open>wire\<close> of \<open>wire.py\<close>. Modelled from the spec: \<open>pimm.World\<close> and the ports are
  missing. A connection joins one emitter to one receiver or, as a broadcast, to several; an
  emitter is known by its name, a receiver is a real one or a \<open>pimm.FakeReceiver\<close>, and the
  world records the calls of \<open>connect\<close> and \<open>connect_broadcast\<close> in their order.
\<close>

type_synonym emitter = string

datatype receiver = Receiver string | FakeReceiver string

fun is_FakeReceiver :: "receiver \<Rightarrow> bool" where
  "is_FakeReceiver (FakeReceiver n) = True"
| "is_FakeReceiver (Receiver n) = False"

datatype connection = connect emitter receiver | connect_broadcast emitter "receiver list"

type_synonym world = "connection list"

record Policy =
  policy_robot_commands :: emitter
  policy_robot_state :: receiver
  policy_target_grip :: emitter
  policy_gripper_state :: receiver
  policy_frames :: "string \<Rightarrow> receiver"

record RobotArm =
  arm_commands :: receiver
  arm_state :: emitter

record Gripper =
  gripper_target_grip :: receiver
  gripper_grip :: emitter

record Gui =
  gui_cameras :: "string \<Rightarrow> receiver"

datatype DatasetWriter = DatasetWriter string

datatype TimeMode = CLOCK | MESSAGE

datatype Serializers = camera_images | robot_command | robot_state_serializer

text \<open>
  Modelled from the spec: the class \<open>DsWriterAgent\<close> is missing. The spec gives the recorder
  named signal input ports, each registered on its own, and makes the use of a port that was
  not registered an error; \<open>inputs\<close> of a registered name is a real receiver.
\<close>

record DsWriterAgent =
  writer :: DatasetWriter
  time_mode :: TimeMode
  signals :: "(string \<times> Serializers option) list"

definition DsWriterAgent_init :: "DatasetWriter \<Rightarrow> TimeMode \<Rightarrow> DsWriterAgent" where
  "DsWriterAgent_init dw tm = \<lparr>writer = dw, time_mode = tm, signals = []\<rparr>"

definition add_signal :: "string \<Rightarrow> Serializers option \<Rightarrow> DsWriterAgent \<Rightarrow> DsWriterAgent" where
  "add_signal name ser agent = agent\<lparr>signals := signals agent @ [(name, ser)]\<rparr>"

definition inputs :: "DsWriterAgent \<Rightarrow> string \<Rightarrow> exc + receiver" where
  "inputs agent name =
     (if name \<in> set (map fst (signals agent)) then Inr (Receiver (''ds_agent.'' @ name))
      else Inl KeyError)"

text \<open>Sequencing of steps that may raise.\<close>

definition then_do :: "exc + 'a \<Rightarrow> ('a \<Rightarrow> exc + 'b) \<Rightarrow> exc + 'b" where
  "then_do m f = (case m of Inl e \<Rightarrow> Inl e | Inr x \<Rightarrow> f x)"

text \<open>The loop over \<open>cameras.items()\<close>.\<close>

fun connect_cameras ::
  "Policy \<Rightarrow> DsWriterAgent option \<Rightarrow> Gui option \<Rightarrow> (string \<times> emitter) list \<Rightarrow> world \<Rightarrow> exc + world" where
  "connect_cameras policy ds_agent gui [] w = Inr w"
| "connect_cameras policy ds_agent gui ((signal_name, emitter) # cameras) w =
     then_do
       (case ds_agent of
          None \<Rightarrow> Inr []
        | Some ds \<Rightarrow> then_do (inputs ds signal_name) (\<lambda>r. Inr [r]))
       (\<lambda>ds_receivers.
          (let receivers =
                 [policy_frames policy signal_name] @ ds_receivers
                 @ (case gui of None \<Rightarrow> [] | Some g \<Rightarrow> [gui_cameras g signal_name]);
               receivers = filter (\<lambda>r. \<not> is_FakeReceiver r) receivers
           in if length receivers > 1 then
                connect_cameras policy ds_agent gui cameras (w @ [connect_broadcast emitter receivers])
              else if length receivers = 1 then
                connect_cameras policy ds_agent gui cameras (w @ [connect emitter (receivers ! 0)])
              else Inl ValueError))"

text \<open>The body of \<open>if dataset_writer is not None\<close>, the camera loop included, as the
  indentation of the source has it.\<close>

definition wire_dataset ::
  "world \<Rightarrow> Policy \<Rightarrow> DatasetWriter \<Rightarrow> (string \<times> emitter) list option \<Rightarrow> RobotArm \<Rightarrow>
   Gripper option \<Rightarrow> Gui option \<Rightarrow> TimeMode \<Rightarrow> exc + world \<times> DsWriterAgent option" where
  "wire_dataset w policy dw cameras arm gripper gui tm =
     (case cameras of
        None \<Rightarrow> Inl AttributeError
      | Some cams \<Rightarrow>
          (let ds = DsWriterAgent_init dw tm;
               ds = fold (\<lambda>signal_name. add_signal signal_name (Some camera_images)) (map fst cams) ds;
               ds = add_signal ''target_grip'' None ds;
               ds = add_signal ''robot_commands'' (Some robot_command) ds;
               ds = add_signal ''robot_state'' (Some robot_state_serializer) ds;
               ds = add_signal ''grip'' None ds
           in then_do (inputs ds ''robot_commands'') (\<lambda>r1.
              then_do (inputs ds ''target_grip'') (\<lambda>r2.
              then_do (inputs ds ''robot_state'') (\<lambda>r3.
              then_do
                (case gripper of
                   None \<Rightarrow> Inr []
                 | Some g \<Rightarrow> then_do (inputs ds ''grip'') (\<lambda>r4. Inr [connect (gripper_grip g) r4]))
                (\<lambda>grip_connection.
              (let w1 = w @ [connect (policy_robot_commands policy) r1,
                             connect (policy_target_grip policy) r2,
                             connect (arm_state arm) r3] @ grip_connection
               in then_do
                    (if cams \<noteq> [] then connect_cameras policy (Some ds) gui cams w1 else Inr w1)
                    (\<lambda>w2. Inr (w2, Some ds)))))))))"

definition wire ::
  "world \<Rightarrow> Policy \<Rightarrow> DatasetWriter option \<Rightarrow> (string \<times> emitter) list option \<Rightarrow>
   RobotArm option \<Rightarrow> Gripper option \<Rightarrow> Gui option \<Rightarrow> TimeMode \<Rightarrow>
   exc + world \<times> DsWriterAgent option" where
  "wire w policy dataset_writer cameras robot_arm gripper gui tm =
     (case robot_arm of
        None \<Rightarrow> Inl AttributeError
      | Some arm \<Rightarrow>
          (let w1 = w @ [connect (policy_robot_commands policy) (arm_commands arm),
                         connect (arm_state arm) (policy_robot_state policy)];
               w2 = (case gripper of
                       None \<Rightarrow> w1
                     | Some g \<Rightarrow>
                         w1 @ [connect (policy_target_grip policy) (gripper_target_grip g),
                               connect (gripper_grip g) (policy_gripper_state policy)])
           in (case dataset_writer of
                 None \<Rightarrow> Inr (w2, None)
               | Some dw \<Rightarrow> wire_dataset w2 policy dw cameras arm gripper gui tm)))"

section \<open>Concrete inputs\<close>

text \<open>A frame with the right controller only, a pass of the loop from what its ports hold,
  and the two kinds of controller-position message.\<close>

definition right_only :: "real list \<Rightarrow> button_frame" where
  "right_only b = (\<lambda>side. if side = ''right'' then Some b else None)"

definition no_message :: Message where
  "no_message = \<lparr>data = (\<lambda>_. None), updated = False\<rparr>"

definition fresh_message :: "Transform3D \<Rightarrow> Message" where
  "fresh_message p = \<lparr>data = (\<lambda>side. if side = ''right'' then Some p else None), updated = True\<rparr>"

definition pass :: "button_frame option \<Rightarrow> roboarm_State option \<Rightarrow> Message \<Rightarrow> tick_env" where
  "pass b r m =
     \<lparr>should_stop = False, buttons_receiver = b, robot_state = r, controller_positions = m,
      metadata_getter = (\<lambda>_. [(''task'', ''pick'')])\<rparr>"

definition robot_at :: "roboarm_State" where
  "robot_at = \<lparr>ee_pose = \<lparr>translation = (4, 5, 6), rotation = Quat 0 0 1 0\<rparr>\<rparr>"

definition controller_at :: Transform3D where
  "controller_at = \<lparr>translation = (1, 2, 3), rotation = Quat 0 1 0 0\<rparr>"

text \<open>
  Passes of the loop. In the array of a side the trigger is index 0, the stick index 3, \<open>A\<close>
  index 4 and \<open>B\<close> index 5.
\<close>

definition released :: tick_env where
  "released = pass (Some (right_only [0, 0, 0, 0, 0, 0])) (Some robot_at) no_message"

definition press_B :: tick_env where
  "press_B = pass (Some (right_only [1, 0, 0, 0, 0, 1])) (Some robot_at) (fresh_message controller_at)"

definition press_A :: tick_env where
  "press_A = pass (Some (right_only [0, 0, 0, 0, 1, 0])) (Some robot_at) no_message"

definition press_stick :: tick_env where
  "press_stick = pass (Some (right_only [0, 0, 0, 1, 0, 0])) (Some robot_at) no_message"

definition press_A_and_B :: tick_env where
  "press_A_and_B = pass (Some (right_only [0, 0, 0, 0, 1, 1])) (Some robot_at) no_message"

definition press_A_and_stick :: tick_env where
  "press_A_and_stick = pass (Some (right_only [0, 0, 0, 1, 1, 0])) (Some robot_at) no_message"

text \<open>No button frame has arrived yet, while a new controller pose has.\<close>

definition no_buttons :: tick_env where
  "no_buttons = pass None (Some robot_at) (fresh_message controller_at)"

text \<open>No robot state has arrived yet: all buttons released; \<open>A\<close> pressed while a new controller
  pose has arrived.\<close>

definition released_no_robot :: tick_env where
  "released_no_robot = pass (Some (right_only [0, 0, 0, 0, 0, 0])) None no_message"

definition press_A_no_robot :: tick_env where
  "press_A_no_robot =
     pass (Some (right_only [0, 0, 0, 0, 1, 0])) None (fresh_message controller_at)"

text \<open>All buttons released while a new controller pose has arrived.\<close>

definition released_fresh_pose :: tick_env where
  "released_fresh_pose =
     pass (Some (right_only [0, 0, 0, 0, 0, 0])) (Some robot_at) (fresh_message controller_at)"

text \<open>Three states the loop reaches: after one pass with all buttons released, with the
  tracker on (\<open>A\<close> pressed on the first pass, released on the second), and with an episode
  open (\<open>B\<close> pressed on the first pass, released on the second).\<close>

definition after_release :: loop_state where
  "after_release = fst (run (Some FRONT) [released])"

definition while_tracking :: loop_state where
  "while_tracking = fst (run (Some FRONT) [press_A, released])"

definition while_recording :: loop_state where
  "while_recording = fst (run (Some FRONT) [press_B, released])"



text \<open>A policy whose camera receivers are all fake, as those of the data collection
  controller are, a policy with real ones, a robot arm and a display.\<close>

definition policy_fake_frames :: Policy where
  "policy_fake_frames =
     \<lparr>policy_robot_commands = ''policy.robot_commands'',
      policy_robot_state = Receiver ''policy.robot_state'',
      policy_target_grip = ''policy.target_grip'',
      policy_gripper_state = FakeReceiver ''policy.gripper_state'',
      policy_frames = (\<lambda>name. FakeReceiver (''policy.frames.'' @ name))\<rparr>"

definition policy_real_frames :: Policy where
  "policy_real_frames =
     \<lparr>policy_robot_commands = ''policy.robot_commands'',
      policy_robot_state = Receiver ''policy.robot_state'',
      policy_target_grip = ''policy.target_grip'',
      policy_gripper_state = Receiver ''policy.gripper_state'',
      policy_frames = (\<lambda>name. Receiver (''policy.frames.'' @ name))\<rparr>"

definition franka :: RobotArm where
  "franka = \<lparr>arm_commands = Receiver ''robot_arm.commands'', arm_state = ''robot_arm.state''\<rparr>"

definition display :: Gui where
  "display = \<lparr>gui_cameras = (\<lambda>name. Receiver (''gui.cameras.'' @ name))\<rparr>"

section \<open>Properties of the tracker\<close>







lemma turn_on_twice: "turn_on P (turn_on P t) = turn_on P t"
  by (simp add: turn_on_def umi_mode_def)

lemma umi_call: "operator_position t = None \<Longrightarrow> call c t = t"
  by (cases c) (simp_all add: turn_on_def turn_off_def update_def umi_mode_def)


















text \<open>
  C5. UMI (passthrough) mode. A tracker built with no operator calibration is on from its
  construction; whatever sequence of \<open>turn_on\<close>, \<open>turn_off\<close> and \<open>update\<close> calls it receives, it
  stays exactly the tracker it was built as (so it is never off), and in that state \<open>update\<close>
  returns the pose it is given, while \<open>turn_on\<close> and \<open>turn_off\<close> change nothing.
\<close>

theorem C5_umi_passthrough:
  "on (Tracker_init None)
   \<and> calls cs (Tracker_init None) = Tracker_init None
   \<and> update p (calls cs (Tracker_init None)) = (p, Tracker_init None)
   \<and> turn_on P (calls cs (Tracker_init None)) = Tracker_init None
   \<and> turn_off (calls cs (Tracker_init None)) = Tracker_init None"
proof -
  have op: "operator_position (Tracker_init None) = None"
    by (simp add: Tracker_init_def)
  have stay: "calls cs t = t" if "operator_position t = None" for t
    using that by (induction cs) (simp_all add: umi_call)
  have same: "calls cs (Tracker_init None) = Tracker_init None"
    using op by (rule stay)
  show ?thesis
    using op by (simp add: same update_def turn_on_def turn_off_def umi_mode_def)
      (simp add: Tracker_init_def)
qed

text \<open>
  C8. Engaging is idempotent. Calling \<open>turn_on\<close> with the same robot pose twice, or any number
  of further times, with no \<open>update\<close> in between, leaves the tracker as the first call left it,
  so the following \<open>update\<close> returns the same target pose and the same tracker.
\<close>

theorem C8_engage_idempotent:
  "turn_on P (turn_on P t) = turn_on P t
   \<and> (turn_on P ^^ Suc n) t = turn_on P t
   \<and> update c ((turn_on P ^^ Suc n) t) = update c (turn_on P t)"
proof -
  have rep: "(turn_on P ^^ Suc n) t = turn_on P t"
    by (induction n) (simp_all add: turn_on_twice)
  show ?thesis
    using rep by (simp add: turn_on_twice)
qed

text \<open>
  C10. A tracker built with an operator calibration starts off, with the identity transform
  as its offset and as its last mapped controller pose. Engaging it with the robot pose \<open>P\<close>
  before any \<open>update\<close> therefore stores \<open>P\<close> itself as the offset (translation and rotation of
  \<open>P\<close>) and turns the tracker on.
\<close>

theorem C10_initial_tracker:
  "\<not> on (Tracker_init (Some opos))
   \<and> offset (Tracker_init (Some opos)) = Transform3D_default
   \<and> teleop_t (Tracker_init (Some opos)) = Transform3D_default
   \<and> translation (offset (turn_on P (Tracker_init (Some opos)))) = translation P
   \<and> rotation (offset (turn_on P (Tracker_init (Some opos)))) = rotation P
   \<and> on (turn_on P (Tracker_init (Some opos)))"
proof -
  have tr: "vadd (0, 0, 0) v = v" for v :: vec3
    by (cases v) simp
  have ro: "rmul (Quat 1 0 0 0) q = q" for q
    by (cases q) simp
  show ?thesis
    by (simp add: Tracker_init_def turn_on_def umi_mode_def Transform3D_default_def tr ro)
qed

section \<open>Properties of the control loop\<close>

lemma ds_agent_commands_append: "ds_agent_commands (a @ b) = ds_agent_commands a @ ds_agent_commands b"
  by (induction a rule: ds_agent_commands.induct) simp_all

lemma sound_append: "sound (a @ b) = sound a @ sound b"
  by (induction a rule: sound.induct) simp_all


lemma robot_commands_append: "robot_commands (a @ b) = robot_commands a @ robot_commands b"
  by (induction a rule: robot_commands.induct) simp_all

lemma tick_reached:
  assumes "buttons_receiver env = Some b"
    and "parse_buttons b (button_handler s) = (bh, None)"
    and "handle_edges env (s\<lparr>button_handler := bh\<rparr>) = (s1, out1, None)"
  shows "tick env s =
     (fst (handle_pose env s1),
      out1 @ [emit_target_grip (get_value bh ''right_trigger'')] @ fst (snd (handle_pose env s1)),
      snd (snd (handle_pose env s1)))"
  using assms by (simp add: tick_def split: prod.splits)

lemma tick_cut:
  assumes "buttons_receiver env = Some b"
    and "parse_buttons b (button_handler s) = (bh, None)"
    and "handle_edges env (s\<lparr>button_handler := bh\<rparr>) = (s1, out1, Some e)"
  shows "tick env s = (s1, out1, Some e)"
  using assms by (simp add: tick_def)

text \<open>What the read of the controller pose changes and emits.\<close>

lemma update_on: "on (snd (update p t)) = on t"
  by (simp add: update_def Let_def split: option.splits)

lemma update_offset: "offset (snd (update p t)) = offset t"
  by (simp add: update_def Let_def split: option.splits)

lemma update_operator_position: "operator_position (snd (update p t)) = operator_position t"
  by (simp add: update_def Let_def split: option.splits)

lemma handle_pose_recording: "recording (fst (handle_pose env s)) = recording s"
  by (simp add: handle_pose_def split: option.splits prod.splits)

lemma handle_pose_on: "on (tracker (fst (handle_pose env s))) = on (tracker s)"
  using update_on by (auto simp add: handle_pose_def split: option.splits prod.splits) (metis snd_conv)+

lemma handle_pose_offset: "offset (tracker (fst (handle_pose env s))) = offset (tracker s)"
  using update_offset by (auto simp add: handle_pose_def split: option.splits prod.splits) (metis snd_conv)+

lemma handle_pose_quiet:
  "ds_agent_commands (fst (snd (handle_pose env s))) = []"
  "sound (fst (snd (handle_pose env s))) = []"
  "target_grip (fst (snd (handle_pose env s))) = []"
  by (simp_all add: handle_pose_def split: option.splits prod.splits)

lemma handle_pose_off:
  "\<not> on (tracker s) \<Longrightarrow> fst (snd (handle_pose env s)) = []"
  using update_on by (auto simp add: handle_pose_def split: option.splits prod.splits) (metis snd_conv)

lemma handle_pose_no_Reset:
  "Reset \<notin> set (robot_commands (fst (snd (handle_pose env s))))"
  by (simp add: handle_pose_def split: option.splits prod.splits)


text \<open>The branches of the chain on the three buttons.\<close>

lemma turn_off_operator_position: "operator_position (turn_off t) = operator_position t"
  by (simp add: turn_off_def)

lemma turn_on_operator_position: "operator_position (turn_on p t) = operator_position t"
  by (simp add: turn_on_def)

lemma handle_edges_B:
  "just_pressed (button_handler s) ''right_B'' \<Longrightarrow>
   handle_edges env s =
     (s\<lparr>recording := \<not> recording s\<rparr>,
      [emit_ds_agent_commands
         (DsWriterCommand (if recording s then STOP_EPISODE else START_EPISODE)
            (if recording s then [] else metadata_getter env ())),
       emit_sound (if recording s then end_wav_path else start_wav_path)],
      None)"
  by (simp add: handle_edges_def Let_def)

lemma handle_edges_A:
  "\<not> just_pressed (button_handler s) ''right_B'' \<Longrightarrow>
   just_pressed (button_handler s) ''right_A'' \<Longrightarrow>
   handle_edges env s =
     (if on (tracker s) then (s\<lparr>tracker := turn_off (tracker s)\<rparr>, [], None)
      else (case robot_state env of
              None \<Rightarrow> (s, [], Some NoValueException)
            | Some st \<Rightarrow> (s\<lparr>tracker := turn_on (ee_pose st) (tracker s)\<rparr>, [], None)))"
  by (simp add: handle_edges_def)

lemma handle_edges_stick:
  "\<not> just_pressed (button_handler s) ''right_B'' \<Longrightarrow>
   \<not> just_pressed (button_handler s) ''right_A'' \<Longrightarrow>
   just_pressed (button_handler s) ''right_stick'' \<Longrightarrow> \<not> umi_mode (tracker s) \<Longrightarrow>
   handle_edges env s =
     (s\<lparr>tracker := turn_off (tracker s), recording := False\<rparr>,
      (if recording s then [emit_ds_agent_commands ABORT, emit_sound abort_wav_path] else [])
        @ [emit_robot_commands Reset],
      None)"
  by (simp add: handle_edges_def)

lemma handle_edges_none:
  "\<not> just_pressed (button_handler s) ''right_B'' \<Longrightarrow>
   \<not> just_pressed (button_handler s) ''right_A'' \<Longrightarrow>
   \<not> (just_pressed (button_handler s) ''right_stick'' \<and> \<not> umi_mode (tracker s)) \<Longrightarrow>
   handle_edges env s = (s, [], None)"
  by (simp add: handle_edges_def)



lemma handle_edges_operator_position:
  "operator_position (tracker (fst (handle_edges env s))) = operator_position (tracker s)"
  by (simp add: handle_edges_def Let_def turn_off_operator_position turn_on_operator_position
      split: option.splits)

lemma handle_edges_no_pose:
  "CartesianPosition p \<notin> set (robot_commands (fst (snd (handle_edges env s))))"
  by (simp add: handle_edges_def Let_def split: option.splits)

lemma handle_edges_episodes:
  "episodes (recording s) (map command_type (ds_agent_commands (fst (snd (handle_edges env s)))) @ cs)
   = episodes (recording (fst (handle_edges env s))) cs"
  by (simp add: handle_edges_def Let_def ABORT_def split: option.splits)

lemmas loop_defs =
  run_def initial_state_def tick_def parse_buttons_def side_mapping_def handle_edges_def
  handle_pose_def just_pressed_def get_value_def ButtonHandler_init_def Tracker_init_def
  turn_on_def turn_off_def update_def umi_mode_def Let_def
  pass_def right_only_def no_message_def fresh_message_def

lemmas pass_defs =
  released_def press_B_def press_A_def press_stick_def press_A_and_B_def press_A_and_stick_def
  no_buttons_def released_no_robot_def press_A_no_robot_def released_fresh_pose_def
  robot_at_def controller_at_def while_recording_def after_release_def while_tracking_def


lemma tick_no_buttons:
  "buttons_receiver env = None \<Longrightarrow> tick env s = (s, [], Some NoValueException)"
  by (simp add: tick_def)

lemma tick_bad_frame:
  "buttons_receiver env = Some b \<Longrightarrow> parse_buttons b (button_handler s) = (bh, Some e) \<Longrightarrow>
   tick env s = (s\<lparr>button_handler := bh\<rparr>, [], Some e)"
  by (simp add: tick_def)

lemma tick_cases [case_names no_buttons bad_frame cut reached]:
  obtains "tick env s = (s, [], Some NoValueException)"
  | bh e where "tick env s = (s\<lparr>button_handler := bh\<rparr>, [], Some e)"
  | bh e where "tick env s =
        (fst (handle_edges env (s\<lparr>button_handler := bh\<rparr>)),
         fst (snd (handle_edges env (s\<lparr>button_handler := bh\<rparr>))), Some e)"
  | b bh s1 out1 where "buttons_receiver env = Some b"
      and "parse_buttons b (button_handler s) = (bh, None)"
      and "handle_edges env (s\<lparr>button_handler := bh\<rparr>) = (s1, out1, None)"
      and "tick env s =
        (fst (handle_pose env s1),
         out1 @ [emit_target_grip (get_value bh ''right_trigger'')] @ fst (snd (handle_pose env s1)),
         snd (snd (handle_pose env s1)))"
proof (cases "buttons_receiver env")
  case None
  then show ?thesis using that(1) by (simp add: tick_no_buttons)
next
  case (Some b)
  obtain bh pe where p: "parse_buttons b (button_handler s) = (bh, pe)"
    by (cases "parse_buttons b (button_handler s)")
  show ?thesis
  proof (cases pe)
    case (Some e)
    then show ?thesis using that(2) tick_bad_frame [OF \<open>buttons_receiver env = Some b\<close>] p by simp
  next
    case None
    obtain s1 out1 ee where h: "handle_edges env (s\<lparr>button_handler := bh\<rparr>) = (s1, out1, ee)"
      by (cases "handle_edges env (s\<lparr>button_handler := bh\<rparr>)")
    show ?thesis
    proof (cases ee)
      case None
      with h p \<open>pe = None\<close> \<open>buttons_receiver env = Some b\<close> show ?thesis
        using that(4) tick_reached by simp
    next
      case (Some e)
      with h p \<open>pe = None\<close> \<open>buttons_receiver env = Some b\<close> show ?thesis
        using that(3) [of bh e] tick_cut [of env b s bh s1 out1 e] by simp
    qed
  qed
qed

lemma handle_pose_pose_on:
  "CartesianPosition p \<in> set (robot_commands (fst (snd (handle_pose env s)))) \<Longrightarrow>
   on (tracker (fst (handle_pose env s)))"
  by (auto simp add: handle_pose_def split: option.splits prod.splits if_splits)

lemma handle_pose_teleop_t:
  assumes "updated (controller_positions env)"
    and "data (controller_positions env) ''right'' = Some c"
    and "operator_position (tracker s) = Some opos"
  shows "teleop_t (tracker (fst (handle_pose env s))) = tmul (tmul opos c) (tinv opos)"
  using assms by (simp add: handle_pose_def update_def Let_def)

lemma tick_pose_on:
  "CartesianPosition p \<in> set (robot_commands (fst (snd (tick env s)))) \<Longrightarrow>
   on (tracker (fst (tick env s)))"
proof (cases env s rule: tick_cases)
  case no_buttons
  assume "CartesianPosition p \<in> set (robot_commands (fst (snd (tick env s))))"
  then show ?thesis using no_buttons by simp
next
  case (bad_frame bh e)
  assume "CartesianPosition p \<in> set (robot_commands (fst (snd (tick env s))))"
  then show ?thesis using bad_frame by simp
next
  case (cut bh e)
  assume "CartesianPosition p \<in> set (robot_commands (fst (snd (tick env s))))"
  then show ?thesis using cut handle_edges_no_pose by simp
next
  case (reached b bh s1 out1)
  assume a: "CartesianPosition p \<in> set (robot_commands (fst (snd (tick env s))))"
  have "CartesianPosition p \<notin> set (robot_commands out1)"
    using handle_edges_no_pose [of p env "s\<lparr>button_handler := bh\<rparr>"] reached(3) by simp
  with a reached(4) have "CartesianPosition p \<in> set (robot_commands (fst (snd (handle_pose env s1))))"
    by (simp add: robot_commands_append)
  then show ?thesis
    using reached(4) handle_pose_pose_on by simp
qed

lemma tick_episodes:
  "episodes (recording s) (map command_type (ds_agent_commands (fst (snd (tick env s)))) @ cs)
   = episodes (recording (fst (tick env s))) cs"
proof (cases env s rule: tick_cases)
  case no_buttons
  then show ?thesis by simp
next
  case (bad_frame bh e)
  then show ?thesis by simp
next
  case (cut bh e)
  then show ?thesis
    using handle_edges_episodes [of "s\<lparr>button_handler := bh\<rparr>" env cs] by simp
next
  case (reached b bh s1 out1)
  then show ?thesis
    using handle_edges_episodes [of "s\<lparr>button_handler := bh\<rparr>" env cs]
    by (simp add: ds_agent_commands_append handle_pose_quiet handle_pose_recording)
qed

lemma run_loop_episodes:
  "episodes (recording s) (map command_type (ds_agent_commands (fst (snd (run_loop envs s)))))"
proof (induction envs arbitrary: s)
  case Nil
  show ?case by simp
next
  case (Cons env envs)
  show ?case
  proof (cases "should_stop env")
    case True
    then show ?thesis by simp
  next
    case False
    obtain s1 out1 e where t: "tick env s = (s1, out1, e)"
      by (cases "tick env s")
    show ?thesis
    proof (cases "e = None \<or> e = Some NoValueException")
      case True
      obtain s2 out2 e2 where r: "run_loop envs s1 = (s2, out2, e2)"
        by (cases "run_loop envs s1")
      have "episodes (recording s1) (map command_type (ds_agent_commands out2))"
        using Cons.IH [of s1] r by simp
      then have "episodes (recording s)
          (map command_type (ds_agent_commands out1) @ map command_type (ds_agent_commands out2))"
        using tick_episodes [of s env "map command_type (ds_agent_commands out2)"] t by simp
      then show ?thesis
        using False True t r by (simp add: ds_agent_commands_append)
    next
      case stop: False
      have "episodes (recording s) (map command_type (ds_agent_commands out1) @ [])"
        using tick_episodes [of s env "[]"] t by simp
      moreover have "run_loop (env # envs) s = (s1, out1, e)"
        using False stop t by auto
      ultimately show ?thesis by simp
    qed
  qed
qed

lemma episodes_no_stop_after_abort: "episodes r cs \<Longrightarrow> \<not> stop_after_abort cs"
proof (induction cs arbitrary: r)
  case Nil
  show ?case by simp
next
  case (Cons c cs)
  then show ?case
    by (cases c; cases cs) auto
qed

section \<open>The claims about the control loop\<close>




text \<open>
  C3, as amended. On every pass of the loop with a well-formed button frame the three edges
  are tested in strict order: the record toggle (\<open>right_B\<close>, driving the recording state), then
  the tracking toggle (\<open>right_A\<close>, engaging or disengaging the tracker, engaging with the latest
  known end-effector pose of the robot), then the reset (\<open>right_stick\<close>, outside UMI mode only);
  the action of the first edge that fired is the only one performed, and an edge later in the
  order that fired on the same pass is not acted on:
  \<^item> when the record toggle fired, the one recorder command of the toggle is sent and the
    recording state flips; the tracker stays on or off as it was, with its offset, and no
    \<open>Reset\<close> is sent, whatever the other two edges are;
  \<^item> when it did not and the tracking toggle fired while the tracker is on, the tracker is
    turned off (in UMI mode it stays on) and keeps its offset;
  \<^item> when it did not and the tracking toggle fired while the tracker is off and the robot
    state has arrived, the tracker is turned on with the offset computed from the end-effector
    pose of that robot state (in UMI mode it stays as it is);
  \<^item> in both cases of the tracking toggle the recording state stays, and no recorder command
    and no \<open>Reset\<close> is sent, whatever the reset edge is;
  \<^item> when the tracking toggle is the first edge that fired, the tracker is off and no robot
    state has arrived yet, reading the robot state raises \<open>NoValueException\<close>: the pass ends there,
    nothing is performed and nothing is emitted;
  \<^item> when neither of the first two fired and the reset edge fired outside UMI mode, the
    recording state is idle, the tracker is off and \<open>Reset\<close> is sent;
  \<^item> when none of the three applies, nothing of this changes and nothing of this is sent.
\<close>

theorem C3_first_fired_edge_only:
  assumes "buttons_receiver env = Some b"
    and "parse_buttons b (button_handler s) = (bh, None)"
  shows "(just_pressed bh ''right_B'' \<longrightarrow>
            ds_agent_commands (fst (snd (tick env s)))
              = [DsWriterCommand (if recording s then STOP_EPISODE else START_EPISODE)
                   (if recording s then [] else metadata_getter env ())]
          \<and> recording (fst (tick env s)) = (\<not> recording s)
          \<and> on (tracker (fst (tick env s))) = on (tracker s)
          \<and> offset (tracker (fst (tick env s))) = offset (tracker s)
          \<and> Reset \<notin> set (robot_commands (fst (snd (tick env s)))))
       \<and> (\<not> just_pressed bh ''right_B'' \<and> just_pressed bh ''right_A'' \<and> on (tracker s) \<longrightarrow>
            (\<not> umi_mode (tracker s) \<longrightarrow> \<not> on (tracker (fst (tick env s))))
          \<and> (umi_mode (tracker s) \<longrightarrow> on (tracker (fst (tick env s))))
          \<and> offset (tracker (fst (tick env s))) = offset (tracker s)
          \<and> recording (fst (tick env s)) = recording s
          \<and> ds_agent_commands (fst (snd (tick env s))) = []
          \<and> Reset \<notin> set (robot_commands (fst (snd (tick env s)))))
       \<and> (\<not> just_pressed bh ''right_B'' \<and> just_pressed bh ''right_A'' \<and> \<not> on (tracker s)
            \<and> robot_state env = Some st \<longrightarrow>
            (\<not> umi_mode (tracker s) \<longrightarrow>
               on (tracker (fst (tick env s)))
             \<and> offset (tracker (fst (tick env s))) =
                 \<lparr>translation =
                    vadd (vneg (translation (teleop_t (tracker s)))) (translation (ee_pose st)),
                  rotation =
                    rmul (rinv (rotation (teleop_t (tracker s)))) (rotation (ee_pose st))\<rparr>)
          \<and> (umi_mode (tracker s) \<longrightarrow>
               \<not> on (tracker (fst (tick env s)))
             \<and> offset (tracker (fst (tick env s))) = offset (tracker s))
          \<and> recording (fst (tick env s)) = recording s
          \<and> ds_agent_commands (fst (snd (tick env s))) = []
          \<and> Reset \<notin> set (robot_commands (fst (snd (tick env s)))))
       \<and> (\<not> just_pressed bh ''right_B'' \<and> just_pressed bh ''right_A'' \<and> \<not> on (tracker s)
            \<and> robot_state env = None \<longrightarrow>
            tick env s = (s\<lparr>button_handler := bh\<rparr>, [], Some NoValueException))
       \<and> (\<not> just_pressed bh ''right_B'' \<and> \<not> just_pressed bh ''right_A''
            \<and> just_pressed bh ''right_stick'' \<and> \<not> umi_mode (tracker s) \<longrightarrow>
            \<not> recording (fst (tick env s))
          \<and> \<not> on (tracker (fst (tick env s)))
          \<and> Reset \<in> set (robot_commands (fst (snd (tick env s)))))
       \<and> (\<not> just_pressed bh ''right_B'' \<and> \<not> just_pressed bh ''right_A''
            \<and> \<not> (just_pressed bh ''right_stick'' \<and> \<not> umi_mode (tracker s)) \<longrightarrow>
            recording (fst (tick env s)) = recording s
          \<and> on (tracker (fst (tick env s))) = on (tracker s)
          \<and> offset (tracker (fst (tick env s))) = offset (tracker s)
          \<and> ds_agent_commands (fst (snd (tick env s))) = []
          \<and> Reset \<notin> set (robot_commands (fst (snd (tick env s)))))"
proof -
  let ?s0 = "s\<lparr>button_handler := bh\<rparr>"
  have t: "tick env s =
      (fst (handle_pose env s1),
       out1 @ [emit_target_grip (get_value bh ''right_trigger'')] @ fst (snd (handle_pose env s1)),
       snd (snd (handle_pose env s1)))"
    if "handle_edges env ?s0 = (s1, out1, None)" for s1 out1
    using that by (rule tick_reached [OF assms])
  have after: "recording (fst (tick env s)) = recording s1
      \<and> on (tracker (fst (tick env s))) = on (tracker s1)
      \<and> offset (tracker (fst (tick env s))) = offset (tracker s1)
      \<and> ds_agent_commands (fst (snd (tick env s))) = ds_agent_commands out1
      \<and> (Reset \<in> set (robot_commands (fst (snd (tick env s)))) \<longleftrightarrow> Reset \<in> set (robot_commands out1))"
    if "handle_edges env ?s0 = (s1, out1, None)" for s1 out1
    using handle_pose_no_Reset [of env s1]
    by (simp add: t [OF that] handle_pose_recording handle_pose_on handle_pose_offset
        ds_agent_commands_append robot_commands_append handle_pose_quiet)
  have B: "ds_agent_commands (fst (snd (tick env s)))
              = [DsWriterCommand (if recording s then STOP_EPISODE else START_EPISODE)
                   (if recording s then [] else metadata_getter env ())]
          \<and> recording (fst (tick env s)) = (\<not> recording s)
          \<and> on (tracker (fst (tick env s))) = on (tracker s)
          \<and> offset (tracker (fst (tick env s))) = offset (tracker s)
          \<and> Reset \<notin> set (robot_commands (fst (snd (tick env s))))"
    if "just_pressed bh ''right_B''"
  proof -
    have "just_pressed (button_handler ?s0) ''right_B''" using that by simp
    from handle_edges_B [OF this, of env] show ?thesis
      using after by simp
  qed
  have A_on: "(\<not> umi_mode (tracker s) \<longrightarrow> \<not> on (tracker (fst (tick env s))))
          \<and> (umi_mode (tracker s) \<longrightarrow> on (tracker (fst (tick env s))))
          \<and> offset (tracker (fst (tick env s))) = offset (tracker s)
          \<and> recording (fst (tick env s)) = recording s
          \<and> ds_agent_commands (fst (snd (tick env s))) = []
          \<and> Reset \<notin> set (robot_commands (fst (snd (tick env s))))"
    if "\<not> just_pressed bh ''right_B''" "just_pressed bh ''right_A''" "on (tracker s)"
  proof -
    have "handle_edges env ?s0 = (?s0\<lparr>tracker := turn_off (tracker ?s0)\<rparr>, [], None)"
      using that handle_edges_A [of ?s0 env] by simp
    from after [OF this] show ?thesis
      using that(3) by (simp add: turn_off_def)
  qed
  have A_off: "(\<not> umi_mode (tracker s) \<longrightarrow>
               on (tracker (fst (tick env s)))
             \<and> offset (tracker (fst (tick env s))) =
                 \<lparr>translation =
                    vadd (vneg (translation (teleop_t (tracker s)))) (translation (ee_pose st)),
                  rotation =
                    rmul (rinv (rotation (teleop_t (tracker s)))) (rotation (ee_pose st))\<rparr>)
          \<and> (umi_mode (tracker s) \<longrightarrow>
               \<not> on (tracker (fst (tick env s)))
             \<and> offset (tracker (fst (tick env s))) = offset (tracker s))
          \<and> recording (fst (tick env s)) = recording s
          \<and> ds_agent_commands (fst (snd (tick env s))) = []
          \<and> Reset \<notin> set (robot_commands (fst (snd (tick env s))))"
    if "\<not> just_pressed bh ''right_B''" "just_pressed bh ''right_A''" "\<not> on (tracker s)"
      "robot_state env = Some st"
  proof -
    have "handle_edges env ?s0 = (?s0\<lparr>tracker := turn_on (ee_pose st) (tracker ?s0)\<rparr>, [], None)"
      using that handle_edges_A [of ?s0 env] by simp
    from after [OF this] show ?thesis
      using that(3) by (simp add: turn_on_def)
  qed
  have A_cut: "tick env s = (?s0, [], Some NoValueException)"
    if "\<not> just_pressed bh ''right_B''" "just_pressed bh ''right_A''" "\<not> on (tracker s)"
      "robot_state env = None"
  proof -
    have "handle_edges env ?s0 = (?s0, [], Some NoValueException)"
      using that handle_edges_A [of ?s0 env] by simp
    then show ?thesis
      by (rule tick_cut [OF assms])
  qed
  have S: "\<not> recording (fst (tick env s))
          \<and> \<not> on (tracker (fst (tick env s)))
          \<and> Reset \<in> set (robot_commands (fst (snd (tick env s))))"
    if "\<not> just_pressed bh ''right_B''" "\<not> just_pressed bh ''right_A''"
      "just_pressed bh ''right_stick''" "\<not> umi_mode (tracker s)"
  proof -
    have "handle_edges env ?s0 =
       (?s0\<lparr>tracker := turn_off (tracker ?s0), recording := False\<rparr>,
        (if recording ?s0 then [emit_ds_agent_commands ABORT, emit_sound abort_wav_path] else [])
          @ [emit_robot_commands Reset],
        None)"
      using that by (intro handle_edges_stick) simp_all
    from after [OF this] show ?thesis
      using that(4) by (simp add: turn_off_def robot_commands_append)
  qed
  have N: "recording (fst (tick env s)) = recording s
          \<and> on (tracker (fst (tick env s))) = on (tracker s)
          \<and> offset (tracker (fst (tick env s))) = offset (tracker s)
          \<and> ds_agent_commands (fst (snd (tick env s))) = []
          \<and> Reset \<notin> set (robot_commands (fst (snd (tick env s))))"
    if "\<not> just_pressed bh ''right_B''" "\<not> just_pressed bh ''right_A''"
      "\<not> (just_pressed bh ''right_stick'' \<and> \<not> umi_mode (tracker s))"
  proof -
    have "handle_edges env ?s0 = (?s0, [], None)"
      using that by (intro handle_edges_none) simp_all
    from after [OF this] show ?thesis by simp
  qed
  show ?thesis
    using B A_on A_off A_cut S N by blast
qed

text \<open>
  From the state after a pass with all buttons released: \<open>A\<close> and \<open>B\<close> go down together;
  \<open>A\<close> and the stick go down together, with the robot at its pose; \<open>A\<close> goes down while no
  robot state has arrived; the stick alone goes down; nothing goes down. And from the state
  with the tracker on: \<open>A\<close> and the stick go down together.
\<close>

theorem C3_first_fired_edge_only_witness:
  "just_pressed
       (fst (parse_buttons (right_only [0, 0, 0, 0, 1, 1]) (button_handler after_release))) ''right_B''
   \<and> just_pressed
       (fst (parse_buttons (right_only [0, 0, 0, 0, 1, 1]) (button_handler after_release))) ''right_A''
   \<and> ds_agent_commands (fst (snd (tick press_A_and_B after_release)))
       = [DsWriterCommand START_EPISODE [(''task'', ''pick'')]]
   \<and> recording (fst (tick press_A_and_B after_release))
   \<and> \<not> on (tracker (fst (tick press_A_and_B after_release)))
   \<and> offset (tracker (fst (tick press_A_and_B after_release))) = Transform3D_default
   \<and> Reset \<notin> set (robot_commands (fst (snd (tick press_A_and_B after_release))))
   \<and> \<not> just_pressed
       (fst (parse_buttons (right_only [0, 0, 0, 1, 1, 0]) (button_handler while_tracking))) ''right_B''
   \<and> just_pressed
       (fst (parse_buttons (right_only [0, 0, 0, 1, 1, 0]) (button_handler while_tracking))) ''right_A''
   \<and> just_pressed
       (fst (parse_buttons (right_only [0, 0, 0, 1, 1, 0]) (button_handler while_tracking))) ''right_stick''
   \<and> on (tracker while_tracking)
   \<and> \<not> umi_mode (tracker while_tracking)
   \<and> \<not> on (tracker (fst (tick press_A_and_stick while_tracking)))
   \<and> offset (tracker (fst (tick press_A_and_stick while_tracking))) = offset (tracker while_tracking)
   \<and> \<not> recording (fst (tick press_A_and_stick while_tracking))
   \<and> ds_agent_commands (fst (snd (tick press_A_and_stick while_tracking))) = []
   \<and> Reset \<notin> set (robot_commands (fst (snd (tick press_A_and_stick while_tracking))))
   \<and> \<not> just_pressed
       (fst (parse_buttons (right_only [0, 0, 0, 1, 1, 0]) (button_handler after_release))) ''right_B''
   \<and> just_pressed
       (fst (parse_buttons (right_only [0, 0, 0, 1, 1, 0]) (button_handler after_release))) ''right_A''
   \<and> just_pressed
       (fst (parse_buttons (right_only [0, 0, 0, 1, 1, 0]) (button_handler after_release))) ''right_stick''
   \<and> \<not> on (tracker after_release)
   \<and> \<not> umi_mode (tracker after_release)
   \<and> robot_state press_A_and_stick = Some robot_at
   \<and> on (tracker (fst (tick press_A_and_stick after_release)))
   \<and> offset (tracker (fst (tick press_A_and_stick after_release)))
       = \<lparr>translation = (4, 5, 6), rotation = Quat 0 0 1 0\<rparr>
   \<and> \<not> recording (fst (tick press_A_and_stick after_release))
   \<and> ds_agent_commands (fst (snd (tick press_A_and_stick after_release))) = []
   \<and> Reset \<notin> set (robot_commands (fst (snd (tick press_A_and_stick after_release))))
   \<and> \<not> just_pressed
       (fst (parse_buttons (right_only [0, 0, 0, 0, 1, 0]) (button_handler after_release))) ''right_B''
   \<and> just_pressed
       (fst (parse_buttons (right_only [0, 0, 0, 0, 1, 0]) (button_handler after_release))) ''right_A''
   \<and> robot_state press_A_no_robot = None
   \<and> tick press_A_no_robot after_release
       = (after_release
            \<lparr>button_handler :=
               fst (parse_buttons (right_only [0, 0, 0, 0, 1, 0]) (button_handler after_release))\<rparr>,
          [], Some NoValueException)
   \<and> \<not> just_pressed
       (fst (parse_buttons (right_only [0, 0, 0, 1, 0, 0]) (button_handler after_release))) ''right_B''
   \<and> \<not> just_pressed
       (fst (parse_buttons (right_only [0, 0, 0, 1, 0, 0]) (button_handler after_release))) ''right_A''
   \<and> just_pressed
       (fst (parse_buttons (right_only [0, 0, 0, 1, 0, 0]) (button_handler after_release))) ''right_stick''
   \<and> \<not> recording (fst (tick press_stick after_release))
   \<and> \<not> on (tracker (fst (tick press_stick after_release)))
   \<and> Reset \<in> set (robot_commands (fst (snd (tick press_stick after_release))))
   \<and> \<not> just_pressed
       (fst (parse_buttons (right_only [0, 0, 0, 0, 0, 0]) (button_handler after_release))) ''right_B''
   \<and> \<not> just_pressed
       (fst (parse_buttons (right_only [0, 0, 0, 0, 0, 0]) (button_handler after_release))) ''right_A''
   \<and> \<not> just_pressed
       (fst (parse_buttons (right_only [0, 0, 0, 0, 0, 0]) (button_handler after_release))) ''right_stick''
   \<and> \<not> recording (fst (tick released after_release))
   \<and> \<not> on (tracker (fst (tick released after_release)))
   \<and> offset (tracker (fst (tick released after_release))) = Transform3D_default
   \<and> ds_agent_commands (fst (snd (tick released after_release))) = []
   \<and> Reset \<notin> set (robot_commands (fst (snd (tick released after_release))))"
proof -
  let ?h = "button_handler after_release"
  let ?k = "button_handler while_tracking"
  have b1: "buttons_receiver press_A_and_B = Some (right_only [0, 0, 0, 0, 1, 1])"
    and b2: "buttons_receiver press_A_and_stick = Some (right_only [0, 0, 0, 1, 1, 0])"
    and b3: "buttons_receiver press_stick = Some (right_only [0, 0, 0, 1, 0, 0])"
    and b4: "buttons_receiver released = Some (right_only [0, 0, 0, 0, 0, 0])"
    and b5: "buttons_receiver press_A_no_robot = Some (right_only [0, 0, 0, 0, 1, 0])"
    by (simp_all add: pass_defs pass_def)
  have n1: "snd (parse_buttons (right_only [0, 0, 0, 0, 1, 1]) ?h) = None"
    and n2: "snd (parse_buttons (right_only [0, 0, 0, 1, 1, 0]) ?h) = None"
    and n3: "snd (parse_buttons (right_only [0, 0, 0, 1, 0, 0]) ?h) = None"
    and n4: "snd (parse_buttons (right_only [0, 0, 0, 0, 0, 0]) ?h) = None"
    and n5: "snd (parse_buttons (right_only [0, 0, 0, 0, 1, 0]) ?h) = None"
    and n6: "snd (parse_buttons (right_only [0, 0, 0, 1, 1, 0]) ?k) = None"
    by (simp_all add: loop_defs pass_defs)
  have p1: "parse_buttons (right_only [0, 0, 0, 0, 1, 1]) ?h
      = (fst (parse_buttons (right_only [0, 0, 0, 0, 1, 1]) ?h), None)"
    using n1 by (simp add: prod_eq_iff)
  have p2: "parse_buttons (right_only [0, 0, 0, 1, 1, 0]) ?h
      = (fst (parse_buttons (right_only [0, 0, 0, 1, 1, 0]) ?h), None)"
    using n2 by (simp add: prod_eq_iff)
  have p3: "parse_buttons (right_only [0, 0, 0, 1, 0, 0]) ?h
      = (fst (parse_buttons (right_only [0, 0, 0, 1, 0, 0]) ?h), None)"
    using n3 by (simp add: prod_eq_iff)
  have p4: "parse_buttons (right_only [0, 0, 0, 0, 0, 0]) ?h
      = (fst (parse_buttons (right_only [0, 0, 0, 0, 0, 0]) ?h), None)"
    using n4 by (simp add: prod_eq_iff)
  have p5: "parse_buttons (right_only [0, 0, 0, 0, 1, 0]) ?h
      = (fst (parse_buttons (right_only [0, 0, 0, 0, 1, 0]) ?h), None)"
    using n5 by (simp add: prod_eq_iff)
  have p6: "parse_buttons (right_only [0, 0, 0, 1, 1, 0]) ?k
      = (fst (parse_buttons (right_only [0, 0, 0, 1, 1, 0]) ?k), None)"
    using n6 by (simp add: prod_eq_iff)
  have e1: "just_pressed (fst (parse_buttons (right_only [0, 0, 0, 0, 1, 1]) ?h)) ''right_B''"
      "just_pressed (fst (parse_buttons (right_only [0, 0, 0, 0, 1, 1]) ?h)) ''right_A''"
    by (simp_all add: loop_defs pass_defs)
  have e2: "\<not> just_pressed (fst (parse_buttons (right_only [0, 0, 0, 1, 1, 0]) ?h)) ''right_B''"
      "just_pressed (fst (parse_buttons (right_only [0, 0, 0, 1, 1, 0]) ?h)) ''right_A''"
      "just_pressed (fst (parse_buttons (right_only [0, 0, 0, 1, 1, 0]) ?h)) ''right_stick''"
    by (simp_all add: loop_defs pass_defs)
  have e3: "\<not> just_pressed (fst (parse_buttons (right_only [0, 0, 0, 1, 0, 0]) ?h)) ''right_B''"
      "\<not> just_pressed (fst (parse_buttons (right_only [0, 0, 0, 1, 0, 0]) ?h)) ''right_A''"
      "just_pressed (fst (parse_buttons (right_only [0, 0, 0, 1, 0, 0]) ?h)) ''right_stick''"
    by (simp_all add: loop_defs pass_defs)
  have e4: "\<not> just_pressed (fst (parse_buttons (right_only [0, 0, 0, 0, 0, 0]) ?h)) ''right_B''"
      "\<not> just_pressed (fst (parse_buttons (right_only [0, 0, 0, 0, 0, 0]) ?h)) ''right_A''"
      "\<not> just_pressed (fst (parse_buttons (right_only [0, 0, 0, 0, 0, 0]) ?h)) ''right_stick''"
    by (simp_all add: loop_defs pass_defs)
  have e5: "\<not> just_pressed (fst (parse_buttons (right_only [0, 0, 0, 0, 1, 0]) ?h)) ''right_B''"
      "just_pressed (fst (parse_buttons (right_only [0, 0, 0, 0, 1, 0]) ?h)) ''right_A''"
    by (simp_all add: loop_defs pass_defs)
  have e6: "\<not> just_pressed (fst (parse_buttons (right_only [0, 0, 0, 1, 1, 0]) ?k)) ''right_B''"
      "just_pressed (fst (parse_buttons (right_only [0, 0, 0, 1, 1, 0]) ?k)) ''right_A''"
      "just_pressed (fst (parse_buttons (right_only [0, 0, 0, 1, 1, 0]) ?k)) ''right_stick''"
    by (simp_all add: loop_defs pass_defs)
  have r2: "robot_state press_A_and_stick = Some robot_at"
    and r5: "robot_state press_A_no_robot = None"
    and m1: "metadata_getter press_A_and_B () = [(''task'', ''pick'')]"
    by (simp_all add: pass_defs pass_def)
  have a: "\<not> on (tracker after_release)" "\<not> umi_mode (tracker after_release)"
      "\<not> recording after_release" "offset (tracker after_release) = Transform3D_default"
      "teleop_t (tracker after_release) = Transform3D_default"
    by (simp_all add: loop_defs pass_defs)
  have w: "on (tracker while_tracking)" "\<not> umi_mode (tracker while_tracking)"
      "\<not> recording while_tracking"
    by (simp_all add: loop_defs pass_defs)
  have o: "\<lparr>translation = vadd (vneg (translation Transform3D_default)) (translation (ee_pose robot_at)),
            rotation = rmul (rinv (rotation Transform3D_default)) (rotation (ee_pose robot_at))\<rparr>
      = \<lparr>translation = (4, 5, 6), rotation = Quat 0 0 1 0\<rparr>"
    by (simp add: Transform3D_default_def robot_at_def)
  have c1: "ds_agent_commands (fst (snd (tick press_A_and_B after_release)))
       = [DsWriterCommand START_EPISODE [(''task'', ''pick'')]]
     \<and> recording (fst (tick press_A_and_B after_release))
     \<and> \<not> on (tracker (fst (tick press_A_and_B after_release)))
     \<and> offset (tracker (fst (tick press_A_and_B after_release))) = Transform3D_default
     \<and> Reset \<notin> set (robot_commands (fst (snd (tick press_A_and_B after_release))))"
    using C3_first_fired_edge_only [OF b1 p1, where st = robot_at] e1 a m1 by simp
  have c2: "\<not> on (tracker (fst (tick press_A_and_stick while_tracking)))
     \<and> offset (tracker (fst (tick press_A_and_stick while_tracking))) = offset (tracker while_tracking)
     \<and> \<not> recording (fst (tick press_A_and_stick while_tracking))
     \<and> ds_agent_commands (fst (snd (tick press_A_and_stick while_tracking))) = []
     \<and> Reset \<notin> set (robot_commands (fst (snd (tick press_A_and_stick while_tracking))))"
    using C3_first_fired_edge_only [OF b2 p6, where st = robot_at] e6 w by simp
  have c3: "on (tracker (fst (tick press_A_and_stick after_release)))
     \<and> offset (tracker (fst (tick press_A_and_stick after_release)))
         = \<lparr>translation = (4, 5, 6), rotation = Quat 0 0 1 0\<rparr>
     \<and> \<not> recording (fst (tick press_A_and_stick after_release))
     \<and> ds_agent_commands (fst (snd (tick press_A_and_stick after_release))) = []
     \<and> Reset \<notin> set (robot_commands (fst (snd (tick press_A_and_stick after_release))))"
    using C3_first_fired_edge_only [OF b2 p2, where st = robot_at] e2 a r2 o by simp
  have c4: "tick press_A_no_robot after_release
       = (after_release
            \<lparr>button_handler := fst (parse_buttons (right_only [0, 0, 0, 0, 1, 0]) ?h)\<rparr>,
          [], Some NoValueException)"
    using C3_first_fired_edge_only [OF b5 p5, where st = robot_at] e5 a r5 by simp
  have c5: "\<not> recording (fst (tick press_stick after_release))
     \<and> \<not> on (tracker (fst (tick press_stick after_release)))
     \<and> Reset \<in> set (robot_commands (fst (snd (tick press_stick after_release))))"
    using C3_first_fired_edge_only [OF b3 p3, where st = robot_at] e3 a by simp
  have c6: "\<not> recording (fst (tick released after_release))
     \<and> \<not> on (tracker (fst (tick released after_release)))
     \<and> offset (tracker (fst (tick released after_release))) = Transform3D_default
     \<and> ds_agent_commands (fst (snd (tick released after_release))) = []
     \<and> Reset \<notin> set (robot_commands (fst (snd (tick released after_release))))"
    using C3_first_fired_edge_only [OF b4 p4, where st = robot_at] e4 a by simp
  show ?thesis
    using c1 c2 c3 c4 c5 c6 e1 e2 e3 e4 e5 e6 a(1,2) w(1,2) r2 r5 by simp
qed

text \<open>
  C3 as stated fails. With all buttons released on one pass and \<open>A\<close> and \<open>B\<close> both down on the
  next, both edges have fired, the robot state is at hand and the tracker is off; the pass
  starts the recording and leaves the tracker off: the tracking toggle is not performed.
\<close>

theorem C3_counterexample:
  "just_pressed (button_handler (fst (tick press_A_and_B after_release))) ''right_B''
   \<and> just_pressed (button_handler (fst (tick press_A_and_B after_release))) ''right_A''
   \<and> robot_state press_A_and_B = Some robot_at
   \<and> \<not> umi_mode (tracker after_release)
   \<and> \<not> on (tracker after_release)
   \<and> recording (fst (tick press_A_and_B after_release))
   \<and> \<not> on (tracker (fst (tick press_A_and_B after_release)))"
  by (simp add: loop_defs pass_defs)

text \<open>
  C4, as amended. On a pass of the loop outside UMI mode on which the reset edge fired and
  neither the record toggle nor the tracking toggle did: if the loop is recording, \<open>Abort\<close> is
  sent to the recorder and the sound of the abort is played, otherwise neither; in both cases
  the recording state is idle afterwards, the tracker is off and the robot gets exactly one
  command, \<open>Reset\<close>. Over every run of the loop the commands to the recorder form episodes:
  a stop and an abort are sent only for an open episode and close it, so a stop never follows
  an abort without a start in between.
\<close>

theorem C4_reset:
  assumes "buttons_receiver env = Some b"
    and "parse_buttons b (button_handler s) = (bh, None)"
    and "\<not> just_pressed bh ''right_B''"
    and "\<not> just_pressed bh ''right_A''"
    and "just_pressed bh ''right_stick''"
    and "operator_position (tracker s) = Some opos"
  shows "(recording s \<longrightarrow>
            ds_agent_commands (fst (snd (tick env s))) = [ABORT]
          \<and> sound (fst (snd (tick env s))) = [abort_wav_path])
       \<and> (\<not> recording s \<longrightarrow>
            ds_agent_commands (fst (snd (tick env s))) = []
          \<and> sound (fst (snd (tick env s))) = [])
       \<and> \<not> recording (fst (tick env s))
       \<and> \<not> on (tracker (fst (tick env s)))
       \<and> robot_commands (fst (snd (tick env s))) = [Reset]
       \<and> episodes False (map command_type (ds_agent_commands (fst (snd (run opos2 envs)))))
       \<and> \<not> stop_after_abort (map command_type (ds_agent_commands (fst (snd (run opos2 envs)))))"
proof -
  let ?s0 = "s\<lparr>button_handler := bh\<rparr>"
  let ?s1 = "?s0\<lparr>tracker := turn_off (tracker ?s0), recording := False\<rparr>"
  have umi: "\<not> umi_mode (tracker ?s0)"
    using assms(6) by (simp add: umi_mode_def)
  have e: "handle_edges env ?s0 =
     (?s1,
      (if recording ?s0 then [emit_ds_agent_commands ABORT, emit_sound abort_wav_path] else [])
        @ [emit_robot_commands Reset],
      None)"
    using assms(3,4,5) umi by (intro handle_edges_stick) simp_all
  note t = tick_reached [OF assms(1,2) e]
  have off: "\<not> on (tracker ?s1)"
    using umi by (simp add: turn_off_def)
  have quiet: "fst (snd (handle_pose env ?s1)) = []"
    using off by (rule handle_pose_off)
  have on': "\<not> on (tracker (fst (tick env s)))"
    using off handle_pose_on [of env ?s1] t by simp
  have rec: "\<not> recording (fst (tick env s))"
    using handle_pose_recording [of env ?s1] t by simp
  have ep: "episodes False (map command_type (ds_agent_commands (fst (snd (run opos2 envs)))))"
    using run_loop_episodes [of "initial_state opos2" envs] by (simp add: run_def initial_state_def)
  have out: "fst (snd (tick env s)) =
      (if recording s then [emit_ds_agent_commands ABORT, emit_sound abort_wav_path] else [])
        @ [emit_robot_commands Reset, emit_target_grip (get_value bh ''right_trigger'')]"
    using t quiet by simp
  show ?thesis
    using on' rec ep episodes_no_stop_after_abort [OF ep] by (simp add: out)
qed

text \<open>An episode is open and the stick alone goes down; and a run that starts an episode,
  aborts it and starts the next.\<close>

theorem C4_reset_witness:
  "buttons_receiver press_stick = Some (right_only [0, 0, 0, 1, 0, 0])
   \<and> snd (parse_buttons (right_only [0, 0, 0, 1, 0, 0]) (button_handler while_recording)) = None
   \<and> \<not> just_pressed
       (fst (parse_buttons (right_only [0, 0, 0, 1, 0, 0]) (button_handler while_recording))) ''right_B''
   \<and> \<not> just_pressed
       (fst (parse_buttons (right_only [0, 0, 0, 1, 0, 0]) (button_handler while_recording))) ''right_A''
   \<and> just_pressed
       (fst (parse_buttons (right_only [0, 0, 0, 1, 0, 0]) (button_handler while_recording))) ''right_stick''
   \<and> operator_position (tracker while_recording) = Some FRONT
   \<and> recording while_recording
   \<and> ds_agent_commands (fst (snd (tick press_stick while_recording))) = [ABORT]
   \<and> sound (fst (snd (tick press_stick while_recording))) = [abort_wav_path]
   \<and> \<not> recording (fst (tick press_stick while_recording))
   \<and> \<not> on (tracker (fst (tick press_stick while_recording)))
   \<and> robot_commands (fst (snd (tick press_stick while_recording))) = [Reset]
   \<and> map command_type
       (ds_agent_commands (fst (snd (run (Some FRONT) [press_B, released, press_stick, released, press_B]))))
       = [START_EPISODE, ABORT_EPISODE, START_EPISODE]
   \<and> episodes False (map command_type
       (ds_agent_commands (fst (snd (run (Some FRONT) [press_B, released, press_stick, released, press_B])))))
   \<and> \<not> stop_after_abort (map command_type
       (ds_agent_commands (fst (snd (run (Some FRONT) [press_B, released, press_stick, released, press_B])))))"
proof -
  let ?b = "right_only [0, 0, 0, 1, 0, 0]"
  let ?h = "button_handler while_recording"
  have h1: "buttons_receiver press_stick = Some ?b"
    by (simp add: pass_defs pass_def)
  have n2: "snd (parse_buttons ?b ?h) = None"
    by (simp add: loop_defs pass_defs)
  then have h2: "parse_buttons ?b ?h = (fst (parse_buttons ?b ?h), None)"
    by (simp add: prod_eq_iff)
  have h3: "\<not> just_pressed (fst (parse_buttons ?b ?h)) ''right_B''"
    and h4: "\<not> just_pressed (fst (parse_buttons ?b ?h)) ''right_A''"
    and h5: "just_pressed (fst (parse_buttons ?b ?h)) ''right_stick''"
    by (simp_all add: loop_defs pass_defs)
  have h6: "operator_position (tracker while_recording) = Some FRONT"
    by (simp add: loop_defs pass_defs)
  have r: "recording while_recording"
    by (simp add: loop_defs pass_defs)
  have tr: "map command_type
       (ds_agent_commands (fst (snd (run (Some FRONT) [press_B, released, press_stick, released, press_B]))))
       = [START_EPISODE, ABORT_EPISODE, START_EPISODE]"
    by (simp add: loop_defs pass_defs ABORT_def)
  show ?thesis
    using C4_reset [OF h1 h2 h3 h4 h5 h6, of "Some FRONT"
        "[press_B, released, press_stick, released, press_B]"]
      h1 n2 h3 h4 h5 h6 r tr
    by simp
qed

text \<open>
  C4 as stated fails. With all buttons released on one pass and \<open>A\<close> and the stick both down
  on the next, outside UMI mode, the reset edge has fired, yet the pass engages the tracker
  and sends no \<open>Reset\<close>: the branch of the tracking toggle is taken and the reset is skipped.
\<close>

theorem C4_counterexample:
  "just_pressed (button_handler (fst (tick press_A_and_stick after_release))) ''right_stick''
   \<and> \<not> umi_mode (tracker after_release)
   \<and> on (tracker (fst (tick press_A_and_stick after_release)))
   \<and> robot_commands (fst (snd (tick press_A_and_stick after_release))) = []"
  by (simp add: loop_defs pass_defs)

text \<open>
  C6. When the record toggle fired on a pass (the button frame is there and well formed):
  if the loop is not recording, the recorder gets \<open>START_EPISODE\<close> with the metadata the provider
  returns, the sound of the start is played and the loop is recording afterwards; if the loop
  is recording, the recorder gets \<open>STOP_EPISODE\<close> (with empty metadata), the sound of the stop is
  played and the loop is not recording afterwards. Nothing else is sent to the recorder or
  played on that pass.
\<close>

theorem C6_record_toggle:
  assumes "buttons_receiver env = Some b"
    and "parse_buttons b (button_handler s) = (bh, None)"
    and "just_pressed bh ''right_B''"
  shows "(\<not> recording s \<longrightarrow>
            ds_agent_commands (fst (snd (tick env s)))
              = [DsWriterCommand START_EPISODE (metadata_getter env ())]
          \<and> sound (fst (snd (tick env s))) = [start_wav_path]
          \<and> recording (fst (tick env s)))
       \<and> (recording s \<longrightarrow>
            ds_agent_commands (fst (snd (tick env s))) = [DsWriterCommand STOP_EPISODE []]
          \<and> sound (fst (snd (tick env s))) = [end_wav_path]
          \<and> \<not> recording (fst (tick env s)))"
proof -
  let ?s0 = "s\<lparr>button_handler := bh\<rparr>"
  have e: "handle_edges env ?s0 =
     (?s0\<lparr>recording := \<not> recording s\<rparr>,
      [emit_ds_agent_commands
         (DsWriterCommand (if recording s then STOP_EPISODE else START_EPISODE)
            (if recording s then [] else metadata_getter env ())),
       emit_sound (if recording s then end_wav_path else start_wav_path)],
      None)"
    using assms(3) handle_edges_B [of ?s0 env] by simp
  note t = tick_reached [OF assms(1,2) e]
  show ?thesis
    by (simp add: t ds_agent_commands_append sound_append handle_pose_quiet handle_pose_recording)
qed

text \<open>\<open>B\<close> goes down on the first pass of the loop, and again while an episode is open.\<close>

theorem C6_record_toggle_witness:
  "buttons_receiver press_B = Some (right_only [1, 0, 0, 0, 0, 1])
   \<and> snd (parse_buttons (right_only [1, 0, 0, 0, 0, 1]) (button_handler (initial_state (Some FRONT)))) = None
   \<and> just_pressed
       (fst (parse_buttons (right_only [1, 0, 0, 0, 0, 1]) (button_handler (initial_state (Some FRONT)))))
       ''right_B''
   \<and> \<not> recording (initial_state (Some FRONT))
   \<and> ds_agent_commands (fst (snd (tick press_B (initial_state (Some FRONT)))))
       = [DsWriterCommand START_EPISODE [(''task'', ''pick'')]]
   \<and> sound (fst (snd (tick press_B (initial_state (Some FRONT))))) = [start_wav_path]
   \<and> recording (fst (tick press_B (initial_state (Some FRONT))))
   \<and> snd (parse_buttons (right_only [1, 0, 0, 0, 0, 1]) (button_handler while_recording)) = None
   \<and> just_pressed
       (fst (parse_buttons (right_only [1, 0, 0, 0, 0, 1]) (button_handler while_recording)))
       ''right_B''
   \<and> recording while_recording
   \<and> ds_agent_commands (fst (snd (tick press_B while_recording))) = [DsWriterCommand STOP_EPISODE []]
   \<and> sound (fst (snd (tick press_B while_recording))) = [end_wav_path]
   \<and> \<not> recording (fst (tick press_B while_recording))"
proof -
  let ?b = "right_only [1, 0, 0, 0, 0, 1]"
  let ?s = "initial_state (Some FRONT)"
  have h1: "buttons_receiver press_B = Some ?b"
    by (simp add: pass_defs pass_def)
  have n2: "snd (parse_buttons ?b (button_handler ?s)) = None"
    by (simp add: loop_defs)
  then have h2: "parse_buttons ?b (button_handler ?s) = (fst (parse_buttons ?b (button_handler ?s)), None)"
    by (simp add: prod_eq_iff)
  have h3: "just_pressed (fst (parse_buttons ?b (button_handler ?s))) ''right_B''"
    by (simp add: loop_defs)
  have r: "\<not> recording ?s"
    by (simp add: initial_state_def)
  have n2': "snd (parse_buttons ?b (button_handler while_recording)) = None"
    by (simp add: loop_defs pass_defs)
  then have h2': "parse_buttons ?b (button_handler while_recording)
      = (fst (parse_buttons ?b (button_handler while_recording)), None)"
    by (simp add: prod_eq_iff)
  have h3': "just_pressed (fst (parse_buttons ?b (button_handler while_recording))) ''right_B''"
    by (simp add: loop_defs pass_defs)
  have r': "recording while_recording"
    by (simp add: loop_defs pass_defs)
  have m: "metadata_getter press_B () = [(''task'', ''pick'')]"
    by (simp add: pass_defs pass_def)
  show ?thesis
    using C6_record_toggle [OF h1 h2 h3] C6_record_toggle [OF h1 h2' h3'] h1 n2 h3 r n2' h3' r' m
    by simp
qed

text \<open>
  C7, as amended. On every pass of the loop outside UMI mode that runs to its end without an
  exception (the button frame is there, and so is the robot state if the pass engages the
  tracker), on which the read of the controller positions returns a new pose \<open>c\<close> of the right
  controller, and after which the tracker is off: \<open>update\<close> was called, so the last mapped
  pose of the tracker is \<open>calibration * c * inverse(calibration)\<close>, and no \<open>CartesianPosition\<close>
  command is sent. On any pass at all, a \<open>CartesianPosition\<close> command is sent only when the
  tracker is on.
\<close>

theorem C7_pose_computed_not_emitted:
  assumes "snd (snd (tick env s)) = None"
    and "updated (controller_positions env)"
    and "data (controller_positions env) ''right'' = Some c"
    and "operator_position (tracker s) = Some opos"
    and "\<not> on (tracker (fst (tick env s)))"
  shows "teleop_t (tracker (fst (tick env s))) = tmul (tmul opos c) (tinv opos)
       \<and> CartesianPosition p \<notin> set (robot_commands (fst (snd (tick env s))))
       \<and> (CartesianPosition p2 \<in> set (robot_commands (fst (snd (tick env2 s2))))
            \<longrightarrow> on (tracker (fst (tick env2 s2))))"
proof (cases env s rule: tick_cases)
  case no_buttons
  then show ?thesis using assms(1) by simp
next
  case (bad_frame bh e)
  then show ?thesis using assms(1) by simp
next
  case (cut bh e)
  then show ?thesis using assms(1) by simp
next
  case (reached b bh s1 out1)
  have "operator_position (tracker s1) = operator_position (tracker (s\<lparr>button_handler := bh\<rparr>))"
    using handle_edges_operator_position [of env "s\<lparr>button_handler := bh\<rparr>"] reached(3) by simp
  then have op: "operator_position (tracker s1) = Some opos"
    using assms(4) by simp
  have "teleop_t (tracker (fst (tick env s))) = tmul (tmul opos c) (tinv opos)"
    using reached(4) handle_pose_teleop_t [OF assms(2,3) op] by simp
  moreover have "CartesianPosition p \<notin> set (robot_commands (fst (snd (tick env s))))"
    using tick_pose_on [of p env s] assms(5) by blast
  ultimately show ?thesis
    using tick_pose_on [of p2 env2 s2] by blast
qed

text \<open>The first pass of the loop, with all buttons released and a new controller pose.\<close>

theorem C7_pose_computed_not_emitted_witness:
  "snd (snd (tick released_fresh_pose (initial_state (Some FRONT)))) = None
   \<and> updated (controller_positions released_fresh_pose)
   \<and> data (controller_positions released_fresh_pose) ''right'' = Some controller_at
   \<and> operator_position (tracker (initial_state (Some FRONT))) = Some FRONT
   \<and> \<not> on (tracker (fst (tick released_fresh_pose (initial_state (Some FRONT)))))
   \<and> teleop_t (tracker (fst (tick released_fresh_pose (initial_state (Some FRONT)))))
       = \<lparr>translation = (3, 1, 2), rotation = Quat 0 0 1 0\<rparr>
   \<and> robot_commands (fst (snd (tick released_fresh_pose (initial_state (Some FRONT))))) = []"
proof -
  let ?s = "initial_state (Some FRONT)"
  have h1: "snd (snd (tick released_fresh_pose ?s)) = None"
    by (simp add: loop_defs pass_defs)
  have h2: "updated (controller_positions released_fresh_pose)"
    and h3: "data (controller_positions released_fresh_pose) ''right'' = Some controller_at"
    by (simp_all add: pass_defs pass_def fresh_message_def)
  have h4: "operator_position (tracker ?s) = Some FRONT"
    by (simp add: initial_state_def Tracker_init_def)
  have h5: "\<not> on (tracker (fst (tick released_fresh_pose ?s)))"
    by (simp add: loop_defs pass_defs)
  have m: "tmul (tmul FRONT controller_at) (tinv FRONT)
      = \<lparr>translation = (3, 1, 2), rotation = Quat 0 0 1 0\<rparr>"
    by (simp add: tmul_def tinv_def FRONT_def controller_at_def)
  have out: "robot_commands (fst (snd (tick released_fresh_pose ?s))) = []"
    by (simp add: loop_defs pass_defs)
  show ?thesis
    using C7_pose_computed_not_emitted [OF h1 h2 h3 h4 h5] h1 h2 h3 h4 h5 m out
    by simp
qed

text \<open>
  C7 as stated fails. Outside UMI mode, with the tracker off and no robot state arrived yet,
  \<open>A\<close> goes down on a pass on which a new controller pose has arrived: reading the robot state
  raises \<open>NoValueException\<close>, the pass ends before the controller positions are read, the tracker
  stays off and its last mapped pose is not refreshed.
\<close>

theorem C7_counterexample:
  "updated (controller_positions press_A_no_robot)
   \<and> data (controller_positions press_A_no_robot) ''right'' = Some controller_at
   \<and> operator_position (tracker (fst (run (Some FRONT) [released_no_robot]))) = Some FRONT
   \<and> \<not> on (tracker (fst (run (Some FRONT) [released_no_robot])))
   \<and> \<not> on (tracker (fst (tick press_A_no_robot (fst (run (Some FRONT) [released_no_robot])))))
   \<and> teleop_t (tracker (fst (tick press_A_no_robot (fst (run (Some FRONT) [released_no_robot])))))
       \<noteq> tmul (tmul FRONT controller_at) (tinv FRONT)"
  by (simp add: loop_defs pass_defs tmul_def tinv_def FRONT_def Transform3D_default_def)

section \<open>The claim about the wiring\<close>

text \<open>
  C9. The claim asks that a camera signal left without a real receiver makes \<open>wire\<close> raise
  \<open>ValueError\<close>, that one real receiver gives a \<open>connect\<close> and several a \<open>connect_broadcast\<close>.
  The loop over the cameras does so, but it stands inside \<open>if dataset_writer is not None\<close>.
  Without a dataset writer \<open>wire\<close> returns with the two connections of the robot arm only:
  a camera whose only receiver would be the fake one of the policy raises nothing, although
  the loop on the same arguments raises \<open>ValueError\<close>; and a camera with a real receiver in the
  policy and one in the display is not connected, although the loop on the same arguments
  makes the broadcast connection.
\<close>

theorem C9_cameras_skipped_without_dataset_writer:
  "wire [] policy_fake_frames None (Some [(''image'', ''camera.image'')]) (Some franka) None None CLOCK
     = Inr ([connect ''policy.robot_commands'' (Receiver ''robot_arm.commands''),
             connect ''robot_arm.state'' (Receiver ''policy.robot_state'')], None)
   \<and> connect_cameras policy_fake_frames None None [(''image'', ''camera.image'')] [] = Inl ValueError
   \<and> wire [] policy_real_frames None (Some [(''image'', ''camera.image'')]) (Some franka) None
        (Some display) CLOCK
     = Inr ([connect ''policy.robot_commands'' (Receiver ''robot_arm.commands''),
             connect ''robot_arm.state'' (Receiver ''policy.robot_state'')], None)
   \<and> connect_cameras policy_real_frames None (Some display) [(''image'', ''camera.image'')] []
     = Inr [connect_broadcast ''camera.image''
             [Receiver ''policy.frames.image'', Receiver ''gui.cameras.image'']]"
  by (simp add: wire_def policy_fake_frames_def policy_real_frames_def franka_def display_def
      then_do_def Let_def)

end
